theory Spec2Isabelle
  imports Main
begin

section \<open>Errors\<close>

text \<open>
  Every exception the two scripts can raise is a value. The scripts catch nothing, so an
  error raised anywhere ends the call that raised it and every caller.
\<close>

datatype error =
    KeyError string
  | ValueError
  | ParserError
  | HTTPError
  | JSONDecodeError
  | RecursionError
  | TypeError
  | AttributeError

section \<open>Paginator: \<open>retrieve_paginated_data\<close>\<close>

text \<open>
  The function is the same in \<open>octopus_to_influxdb.py\<close> and \<open>agileexportonly.py\<close>.

  \<^item> \<open>requests.get(url, params=args, auth=(api_key, ''))\<close> is the external source. It is a
    parameter of the model: a function from the request to either an error
    (\<open>raise_for_status\<close> raising \<open>HTTPError\<close>, \<open>response.json()\<close> raising on a body that
    is not JSON) or the decoded body.
  \<^item> The decoded body is any JSON value (\<open>json\<close>): the code checks neither that it is an
    object nor what its \<open>results\<close> and \<open>next\<close> hold. An object is the list of its members
    in order, with distinct keys. Numbers are of a type \<open>'n\<close> of which only \<open>0\<close>, \<open>1\<close> and
    \<open>+\<close> are used.
  \<^item> \<open>parse.parse_qs(parse.urlparse(u).query)['page'][0]\<close> is the parameter \<open>query_page\<close>:
    \<open>None\<close> when the URL has no \<open>page\<close> parameter (\<open>KeyError\<close>). \<open>urlparse\<close> of a
    value that is not a string raises \<open>AttributeError\<close>.
  \<^item> The recursion is Python recursion, one frame per page; the first argument is the
    number of frames left, and running out of them is \<open>RecursionError\<close>.
\<close>

datatype 'n json =
    JNull
  | JBool bool
  | JNum 'n
  | JStr string
  | JList "'n json list"
  | JObj "(string \<times> 'n json) list"

record request =
  req_api_key :: string
  req_url :: string
  period_from :: string
  period_to :: string
  page :: "string option"

type_synonym 'n source = "request \<Rightarrow> error + 'n json"

text \<open>Python truthiness: of a value that is \<open>None\<close> or a string, and of a JSON value.\<close>

definition truthy :: "string option \<Rightarrow> bool" where
  "truthy v = (case v of None \<Rightarrow> False | Some s \<Rightarrow> s \<noteq> [])"

definition json_truthy :: "'n::zero json \<Rightarrow> bool" where
  "json_truthy v =
     (case v of
        JNull \<Rightarrow> False
      | JBool b \<Rightarrow> b
      | JNum n \<Rightarrow> n \<noteq> 0
      | JStr s \<Rightarrow> s \<noteq> []
      | JList xs \<Rightarrow> xs \<noteq> []
      | JObj kvs \<Rightarrow> kvs \<noteq> [])"

text \<open>
  \<open>a += b\<close> on decoded JSON values. A list is extended by what iterating over \<open>b\<close> gives:
  the elements of a list, the characters of a string, the keys of an object; anything else
  is not iterable. Strings are concatenated, numbers and booleans added; every other
  combination is a \<open>TypeError\<close>.
\<close>

definition iter_items :: "'n json \<Rightarrow> 'n json list option" where
  "iter_items v =
     (case v of
        JList ys \<Rightarrow> Some ys
      | JStr s \<Rightarrow> Some (map (\<lambda>c. JStr [c]) s)
      | JObj kvs \<Rightarrow> Some (map (\<lambda>kv. JStr (fst kv)) kvs)
      | _ \<Rightarrow> None)"

definition as_number :: "'n::{zero,one} json \<Rightarrow> 'n option" where
  "as_number v =
     (case v of
        JNum n \<Rightarrow> Some n
      | JBool b \<Rightarrow> Some (if b then 1 else 0)
      | _ \<Rightarrow> None)"

definition iadd :: "'n::{zero,one,plus} json \<Rightarrow> 'n json \<Rightarrow> error + 'n json" where
  "iadd a b =
     (case a of
        JList xs \<Rightarrow>
          (case iter_items b of None \<Rightarrow> Inl TypeError | Some ys \<Rightarrow> Inr (JList (xs @ ys)))
      | JStr s \<Rightarrow> (case b of JStr t \<Rightarrow> Inr (JStr (s @ t)) | _ \<Rightarrow> Inl TypeError)
      | JNull \<Rightarrow> Inl TypeError
      | JObj kvs \<Rightarrow> Inl TypeError
      | _ \<Rightarrow>
          (case as_number a of
             None \<Rightarrow> Inl TypeError
           | Some x \<Rightarrow>
               (case as_number b of None \<Rightarrow> Inl TypeError | Some y \<Rightarrow> Inr (JNum (x + y)))))"

text \<open>The \<open>args\<close> dict and the call's fixed arguments: \<open>page\<close> is added only if truthy.\<close>

definition request_args :: "string \<Rightarrow> string \<Rightarrow> string \<Rightarrow> string \<Rightarrow> string option \<Rightarrow> request" where
  "request_args api_key url from_date to_date pg =
     \<lparr>req_api_key = api_key, req_url = url, period_from = from_date, period_to = to_date,
      page = (if truthy pg then pg else None)\<rparr>"

fun retrieve_paginated_data ::
  "nat \<Rightarrow> (string \<Rightarrow> string option) \<Rightarrow> 'n::{zero,one,plus} source \<Rightarrow>
   string \<Rightarrow> string \<Rightarrow> string \<Rightarrow> string \<Rightarrow> string option \<Rightarrow> error + 'n json" where
  "retrieve_paginated_data 0 query_page src api_key url from_date to_date pg = Inl RecursionError"
| "retrieve_paginated_data (Suc depth) query_page src api_key url from_date to_date pg =
     (case src (request_args api_key url from_date to_date pg) of
        Inl e \<Rightarrow> Inl e
      | Inr data \<Rightarrow>
          (case data of
             JObj members \<Rightarrow>
               (let results = (case map_of members ''results'' of
                                 None \<Rightarrow> JList [] | Some v \<Rightarrow> v) in
                case map_of members ''next'' of
                  None \<Rightarrow> Inl (KeyError ''next'')
                | Some nxt \<Rightarrow>
                    if json_truthy nxt then
                      (case nxt of
                         JStr next_url \<Rightarrow>
                           (case query_page next_url of
                              None \<Rightarrow> Inl (KeyError ''page'')
                            | Some next_page \<Rightarrow>
                                (case retrieve_paginated_data depth query_page src api_key url
                                        from_date to_date (Some next_page) of
                                   Inl e \<Rightarrow> Inl e
                                 | Inr tail_results \<Rightarrow> iadd results tail_results))
                       | _ \<Rightarrow> Inl AttributeError)
                    else Inr results)
           | _ \<Rightarrow> Inl AttributeError))"

subsection \<open>What a source serves\<close>

text \<open>
  \<open>page_results data\<close>: the records of a well-formed page, an object whose \<open>results\<close> is a
  list (or is missing, which counts as no records). \<open>next_token query_page data\<close>: what a
  page says about its successor; \<open>Some None\<close> is no further page (\<open>next\<close> is \<open>null\<close> or
  otherwise falsy), \<open>Some (Some p)\<close> is the page token \<open>p\<close>, and \<open>None\<close> is a page that
  makes the code raise (not an object, no \<open>next\<close>, a truthy \<open>next\<close> that is no string or
  has no \<open>page\<close> parameter).
\<close>

definition page_results :: "'n json \<Rightarrow> 'n json list option" where
  "page_results data =
     (case data of
        JObj members \<Rightarrow>
          (case map_of members ''results'' of
             None \<Rightarrow> Some []
           | Some (JList rs) \<Rightarrow> Some rs
           | Some _ \<Rightarrow> None)
      | _ \<Rightarrow> None)"

definition next_token :: "(string \<Rightarrow> string option) \<Rightarrow> 'n::zero json \<Rightarrow> string option option" where
  "next_token query_page data =
     (case data of
        JObj members \<Rightarrow>
          (case map_of members ''next'' of
             None \<Rightarrow> None
           | Some nxt \<Rightarrow>
               if json_truthy nxt then
                 (case nxt of
                    JStr next_url \<Rightarrow>
                      (case query_page next_url of None \<Rightarrow> None | Some p \<Rightarrow> Some (Some p))
                  | _ \<Rightarrow> None)
               else Some None)
      | _ \<Rightarrow> None)"

text \<open>The exception a page that makes the code raise gives.\<close>

definition page_error :: "(string \<Rightarrow> string option) \<Rightarrow> 'n::zero json \<Rightarrow> error" where
  "page_error query_page data =
     (case data of
        JObj members \<Rightarrow>
          (case map_of members ''next'' of
             None \<Rightarrow> KeyError ''next''
           | Some (JStr next_url) \<Rightarrow> KeyError ''page''
           | Some _ \<Rightarrow> AttributeError)
      | _ \<Rightarrow> AttributeError)"

text \<open>
  \<open>serves_pages \<dots> pg pss\<close>: asked from page \<open>pg\<close> on, the source answers with
  well-formed pages whose records are \<open>pss\<close>, one list per page, every page but the last
  carrying a continuation token and the last one reporting none.
\<close>

fun serves_pages ::
  "(string \<Rightarrow> string option) \<Rightarrow> 'n::zero source \<Rightarrow>
   string \<Rightarrow> string \<Rightarrow> string \<Rightarrow> string \<Rightarrow> string option \<Rightarrow> 'n json list list \<Rightarrow> bool" where
  "serves_pages query_page src api_key url from_date to_date pg [] = False"
| "serves_pages query_page src api_key url from_date to_date pg (rs # rest) =
     (case src (request_args api_key url from_date to_date pg) of
        Inl e \<Rightarrow> False
      | Inr data \<Rightarrow>
          page_results data = Some rs \<and>
          (case next_token query_page data of
             None \<Rightarrow> False
           | Some None \<Rightarrow> rest = []
           | Some (Some next_page) \<Rightarrow>
               serves_pages query_page src api_key url from_date to_date
                 (Some next_page) rest))"


section \<open>Time: the \<open>maya\<close> library as far as the scripts use it\<close>

text \<open>
  An instant (\<open>MayaDT\<close>) is its epoch: seconds since 1970-01-01T00:00:00Z, an \<open>int\<close>
  (the timestamps of the metering API are whole seconds).
  A wall-clock reading (a naive local datetime) is counted the same way, as seconds since
  1970-01-01T00:00:00 on that clock, so that its date is \<open>w div 86400\<close> and its time of
  day \<open>w mod 86400\<close>.

  The library is not part of the repository; the model takes from it:
  \<^item> \<open>maya.parse(s)\<close> and \<open>MayaDT.iso8601()\<close> as the two fields of \<open>maya_lib\<close> (\<open>parse\<close>
    gives \<open>None\<close> where the library raises on a malformed timestamp);
  \<^item> a timezone as a \<open>zone\<close>: \<open>utc_offset z t\<close> is the offset in force at the instant \<open>t\<close>
    (\<open>MayaDT.datetime(to_timezone=z)\<close> is the wall clock \<open>t + utc_offset z t\<close>), and
    \<open>localize z w\<close> is the instant that \<open>maya.when(w, timezone=z)\<close> gives for the wall-clock
    reading \<open>w\<close>;
  \<^item> \<open>MayaInterval(start, end)\<close>, which raises \<open>ValueError\<close> when \<open>start > end\<close>, and its
    membership test \<open>dt in interval\<close>, which the library defines as
    \<open>start <= dt < end\<close>: an interval includes its start and excludes its end.
\<close>

record maya_lib =
  parse :: "string \<Rightarrow> int option"
  iso8601 :: "int \<Rightarrow> string"

record zone =
  utc_offset :: "int \<Rightarrow> int"
  localize :: "int \<Rightarrow> int"

definition local_seconds :: "zone \<Rightarrow> int \<Rightarrow> int" where
  "local_seconds z t = t + utc_offset z t"

definition local_midnight :: "zone \<Rightarrow> int \<Rightarrow> int" where
  "local_midnight z t = (local_seconds z t div 86400) * 86400"

definition time_of_day :: "zone \<Rightarrow> int \<Rightarrow> int" where
  "time_of_day z t = local_seconds z t mod 86400"

text \<open>
  \<open>maya.when(measurement_at.datetime(to_timezone=z).strftime('%Y-%m-%dT<hms>'), timezone=z)\<close>:
  the local date of the instant, with the time of day replaced by \<open>hms\<close> (seconds after
  local midnight), read back as an instant.
\<close>

definition when_on_local_date :: "zone \<Rightarrow> int \<Rightarrow> int \<Rightarrow> int" where
  "when_on_local_date z t hms = localize z (local_midnight z t + hms)"

record maya_interval =
  iv_start :: int
  iv_end :: int

definition MayaInterval :: "int \<Rightarrow> int \<Rightarrow> error + maya_interval" where
  "MayaInterval start stop =
     (if start > stop then Inl ValueError else Inr \<lparr>iv_start = start, iv_end = stop\<rparr>)"

definition contains_dt :: "maya_interval \<Rightarrow> int \<Rightarrow> bool" where
  "contains_dt iv dt = (iv_start iv \<le> dt \<and> dt < iv_end iv)"

text \<open>\<open>datetime.strftime('%H:%M')\<close> of a wall-clock reading.\<close>

definition two_digits :: "int \<Rightarrow> string" where
  "two_digits n = [''0123456789'' ! nat (n div 10), ''0123456789'' ! nat (n mod 10)]"

definition strftime_HM :: "int \<Rightarrow> string" where
  "strftime_HM w = two_digits ((w mod 86400) div 3600) @ '':'' @ two_digits ((w mod 3600) div 60)"

section \<open>Rate data, consumption records\<close>

text \<open>
  \<open>rate_data\<close> is a dict. A field is \<open>None\<close> when the key is missing. The two keys whose
  value may be Python's \<open>None\<close> have a second \<open>option\<close>: \<open>Some None\<close> is the key present
  with the value \<open>None\<close> (for the zone: \<open>None\<close> or the empty string, both falsy).
  \<open>unit_rate_low_start\<close> and \<open>unit_rate_low_end\<close> are the configured \<open>HH:MM\<close> strings, held
  as seconds after midnight. Numbers (\<open>'a\<close>) are whatever the JSON and the configuration
  gave; the model uses only their multiplication and their zero.
\<close>

record 'a price_point =
  valid_from :: string
  valid_to :: string
  value_inc_vat :: 'a

record 'a rate_data =
  unit_rate :: "'a option"
  unit_rate_high :: "'a option"
  unit_rate_low :: "'a option"
  unit_rate_low_start :: "int option"
  unit_rate_low_end :: "int option"
  unit_rate_low_zone :: "zone option option"
  conversion_factor :: "'a option option"
  agile_unit_rates :: "'a price_point list option"

record 'a consumption_record =
  interval_start :: string
  interval_end :: string
  consumption :: 'a

text \<open>\<open>rate_data[rate]\<close> for the three names \<open>active_rate_field\<close> returns.\<close>

definition rate_lookup :: "'a rate_data \<Rightarrow> string \<Rightarrow> error + 'a" where
  "rate_lookup rd k =
     (case (if k = ''unit_rate'' then unit_rate rd
            else if k = ''unit_rate_high'' then unit_rate_high rd
            else if k = ''unit_rate_low'' then unit_rate_low rd
            else None) of
        None \<Rightarrow> Inl (KeyError k)
      | Some v \<Rightarrow> Inr v)"

section \<open>Rate band resolver: \<open>active_rate_field\<close>\<close>

definition active_rate_field ::
  "maya_lib \<Rightarrow> string \<Rightarrow> 'a rate_data \<Rightarrow> 'a consumption_record \<Rightarrow> error + string" where
  "active_rate_field lib series rd m =
     (if series = ''gas'' then Inr ''unit_rate''
      else case unit_rate_low_zone rd of
        None \<Rightarrow> Inl (KeyError ''unit_rate_low_zone'')
      | Some None \<Rightarrow> Inr ''unit_rate_high''
      | Some (Some low_zone) \<Rightarrow>
      (case unit_rate_low_start rd of
        None \<Rightarrow> Inl (KeyError ''unit_rate_low_start'')
      | Some low_start_str \<Rightarrow>
      (case unit_rate_low_end rd of
        None \<Rightarrow> Inl (KeyError ''unit_rate_low_end'')
      | Some low_end_str \<Rightarrow>
      (case parse lib (interval_start m) of
        None \<Rightarrow> Inl ParserError
      | Some measurement_at \<Rightarrow>
        (let low_start = when_on_local_date low_zone measurement_at low_start_str;
             low_end = when_on_local_date low_zone measurement_at low_end_str
         in
           if low_start > low_end then
             (let low_end_d1 = when_on_local_date low_zone measurement_at 86399;
                  low_start_d2 = when_on_local_date low_zone measurement_at 0
              in case MayaInterval low_start low_end_d1 of
                   Inl e \<Rightarrow> Inl e
                 | Inr low_period_a \<Rightarrow>
                (case MayaInterval low_start_d2 low_end of
                   Inl e \<Rightarrow> Inl e
                 | Inr low_period_b \<Rightarrow>
                     Inr (if contains_dt low_period_a measurement_at
                             \<or> contains_dt low_period_b measurement_at
                          then ''unit_rate_low'' else ''unit_rate_high'')))
           else
             (case MayaInterval low_start low_end of
                Inl e \<Rightarrow> Inl e
              | Inr low_period \<Rightarrow>
                  Inr (if contains_dt low_period measurement_at
                          \<or> contains_dt low_period measurement_at
                       then ''unit_rate_low'' else ''unit_rate_high'')))))))"

section \<open>Measurement enricher: \<open>fields_for_measurement\<close>, \<open>tags_for_measurement\<close>\<close>

text \<open>
  \<open>agile_rates\<close>: the dict comprehension over \<open>agile_data\<close>; of two points with the same
  \<open>valid_to\<close> the later one stays.
\<close>

definition agile_data_of :: "'a rate_data \<Rightarrow> 'a price_point list" where
  "agile_data_of rd = (case agile_unit_rates rd of None \<Rightarrow> [] | Some ps \<Rightarrow> ps)"

definition agile_rates :: "'a price_point list \<Rightarrow> string \<Rightarrow> 'a option" where
  "agile_rates agile_data = map_of (rev (map (\<lambda>p. (valid_to p, value_inc_vat p)) agile_data))"

text \<open>
  The fields dict keeps insertion order (\<open>store_series\<close> iterates over it), so it is an
  association list. \<open>factor_value\<close> is \<open>rate_data.get('conversion_factor', None)\<close>, and
  \<open>converted\<close> the consumption after \<open>if conversion_factor: consumption *= conversion_factor\<close>
  (a number is truthy when it is not zero). Both arguments of \<open>agile_rates.get\<close> are
  evaluated before the call: the timestamp is parsed, then \<open>rate_data[rate]\<close> is looked
  up, also when the key is found.
\<close>

definition fields_for_measurement ::
  "maya_lib \<Rightarrow> string \<Rightarrow> 'a::{times,zero} rate_data \<Rightarrow> 'a consumption_record \<Rightarrow>
   error + (string \<times> 'a) list" where
  "fields_for_measurement lib series rd m =
     (let factor_value = (case conversion_factor rd of None \<Rightarrow> None | Some v \<Rightarrow> v);
          converted = (case factor_value of
                         None \<Rightarrow> consumption m
                       | Some factor \<Rightarrow>
                           if factor \<noteq> 0 then consumption m * factor else consumption m)
      in
      case active_rate_field lib series rd m of
        Inl e \<Rightarrow> Inl e
      | Inr rate \<Rightarrow>
          if agile_data_of rd \<noteq> [] then
            (case parse lib (interval_end m) of
               None \<Rightarrow> Inl ParserError
             | Some end_at \<Rightarrow>
            (case rate_lookup rd rate of
               Inl e \<Rightarrow> Inl e
             | Inr static_rate \<Rightarrow>
                 (let agile_unit_rate =
                        (case agile_rates (agile_data_of rd) (iso8601 lib end_at) of
                           None \<Rightarrow> static_rate
                         | Some v \<Rightarrow> v);
                      agile_cost = agile_unit_rate * converted
                  in Inr [(''consumption'', converted),
                          (''agile_rate'', agile_unit_rate),
                          (''agile_cost'', agile_cost)])))
          else Inr [(''consumption'', converted)])"

text \<open>\<open>period.datetime()\<close> has no \<open>to_timezone\<close>: it is the UTC datetime of the instant.\<close>

definition tags_for_measurement ::
  "maya_lib \<Rightarrow> string \<Rightarrow> 'a rate_data \<Rightarrow> 'a consumption_record \<Rightarrow>
   error + (string \<times> string) list" where
  "tags_for_measurement lib series rd m =
     (case parse lib (interval_end m) of
        None \<Rightarrow> Inl ParserError
      | Some period \<Rightarrow>
          (let time_str = strftime_HM period in
           case active_rate_field lib series rd m of
             Inl e \<Rightarrow> Inl e
           | Inr rate \<Rightarrow> Inr [(''active_rate'', rate), (''time_of_day'', time_str)]))"

record 'a enriched =
  measurement :: string
  tags :: "(string \<times> string) list"
  time :: string
  fields_dict :: "(string \<times> 'a) list"

text \<open>The list comprehension \<open>measurements\<close> of \<open>store_series\<close>.\<close>

fun measurements ::
  "maya_lib \<Rightarrow> string \<Rightarrow> 'a::{times,zero} rate_data \<Rightarrow> 'a consumption_record list \<Rightarrow>
   error + 'a enriched list" where
  "measurements lib series rd [] = Inr []"
| "measurements lib series rd (m # metrics) =
     (case tags_for_measurement lib series rd m of
        Inl e \<Rightarrow> Inl e
      | Inr tg \<Rightarrow>
     (case fields_for_measurement lib series rd m of
        Inl e \<Rightarrow> Inl e
      | Inr fs \<Rightarrow>
     (case measurements lib series rd metrics of
        Inl e \<Rightarrow> Inl e
      | Inr ms \<Rightarrow>
          Inr (\<lparr>measurement = series, tags = tg, time = interval_end m, fields_dict = fs\<rparr> # ms))))"

section \<open>Series emitter: \<open>store_series\<close>, \<open>store_agilerates\<close>\<close>

text \<open>
  A \<open>Point\<close> of the InfluxDB client: the measurement name given to the constructor, the
  tags added with \<open>.tag\<close>, the fields added with \<open>.field\<close>, the timestamp set with \<open>.time\<close>.
  The connection is the list of the \<open>write_api.write\<close> calls made on it, oldest first;
  each call has its bucket and the points of its \<open>record\<close> argument (one point, or a list).
\<close>

record 'a point =
  point_name :: string
  point_tags :: "(string \<times> string) list"
  point_fields :: "(string \<times> 'a) list"
  point_time :: string

record 'a write_call =
  bucket :: string
  points :: "'a point list"

text \<open>The inner loop of \<open>store_series\<close>: one point, and one write, per field.\<close>

definition writes_for_measurement :: "'a enriched \<Rightarrow> 'a write_call list" where
  "writes_for_measurement em =
     map (\<lambda>(field, v).
            \<lparr>bucket = ''energy'',
             points = [\<lparr>point_name = ''electricity'', point_tags = [],
                        point_fields = [(field, v)], point_time = time em\<rparr>]\<rparr>)
         (fields_dict em)"

definition store_series ::
  "maya_lib \<Rightarrow> 'a write_call list \<Rightarrow> string \<Rightarrow> 'a::{times,zero} consumption_record list \<Rightarrow>
   'a rate_data \<Rightarrow> error + 'a write_call list" where
  "store_series lib connection series metrics rd =
     (case measurements lib series rd metrics of
        Inl e \<Rightarrow> Inl e
      | Inr ms \<Rightarrow> Inr (connection @ concat (map writes_for_measurement ms)))"

text \<open>
  \<open>store_agilerates\<close> (\<open>agileexportonly.py\<close>): the loop carries the connection and the
  list \<open>points\<close>; after the loop the remaining \<open>points\<close> are written, whatever their number.
\<close>

definition agile_point :: "'a price_point \<Rightarrow> 'a point" where
  "agile_point agile_rate =
     \<lparr>point_name = ''electricity'', point_tags = [],
      point_fields = [(''agile_rate'', value_inc_vat agile_rate)],
      point_time = valid_from agile_rate\<rparr>"

fun store_agilerates_loop ::
  "'a write_call list \<Rightarrow> 'a point list \<Rightarrow> 'a price_point list \<Rightarrow>
   'a write_call list \<times> 'a point list" where
  "store_agilerates_loop connection pts [] = (connection, pts)"
| "store_agilerates_loop connection pts (agile_rate # agile_data) =
     (let pts' = pts @ [agile_point agile_rate] in
      if length pts' > 48
      then store_agilerates_loop (connection @ [\<lparr>bucket = ''energy'', points = pts'\<rparr>]) []
             agile_data
      else store_agilerates_loop connection pts' agile_data)"

definition store_agilerates :: "'a write_call list \<Rightarrow> 'a price_point list \<Rightarrow> 'a write_call list" where
  "store_agilerates connection agile_data =
     (case store_agilerates_loop connection [] agile_data of
        (connection', pts) \<Rightarrow> connection' @ [\<lparr>bucket = ''energy'', points = pts\<rparr>])"

section \<open>Configuration: the electricity rate data built by \<open>cmd\<close>\<close>

text \<open>
  \<open>cmd\<close> reads the configuration file with fallbacks: \<open>0.0\<close> for a missing rate,
  \<open>"00:00"\<close> for a missing start or end of the low band, \<open>None\<close> for a missing zone. The
  electricity dict has neither \<open>unit_rate\<close> nor \<open>conversion_factor\<close>.
\<close>

record 'a electricity_config =
  cfg_unit_rate_high :: "'a option"
  cfg_unit_rate_low :: "'a option"
  cfg_unit_rate_low_start :: "int option"
  cfg_unit_rate_low_end :: "int option"
  cfg_unit_rate_low_zone :: "zone option"

definition fallback :: "'b option \<Rightarrow> 'b \<Rightarrow> 'b" where
  "fallback v d = (case v of None \<Rightarrow> d | Some x \<Rightarrow> x)"

definition electricity_rate_data ::
  "'a::zero electricity_config \<Rightarrow> 'a price_point list \<Rightarrow> 'a rate_data" where
  "electricity_rate_data cfg agile =
     \<lparr>unit_rate = None,
      unit_rate_high = Some (fallback (cfg_unit_rate_high cfg) 0),
      unit_rate_low = Some (fallback (cfg_unit_rate_low cfg) 0),
      unit_rate_low_start = Some (fallback (cfg_unit_rate_low_start cfg) 0),
      unit_rate_low_end = Some (fallback (cfg_unit_rate_low_end cfg) 0),
      unit_rate_low_zone = Some (cfg_unit_rate_low_zone cfg),
      conversion_factor = None,
      agile_unit_rates = Some agile\<rparr>"

section \<open>Properties of a zone used in the statements\<close>

text \<open>
  \<open>regular_day z t\<close>: on the local day of the instant \<open>t\<close> the zone has one offset, the one
  in force at \<open>t\<close>: every wall-clock reading of that day is that much ahead of its instant.
  It holds on every day of a zone without daylight saving, and on every day of any zone
  but the two days a year on which its offset changes.
\<close>

definition regular_day :: "zone \<Rightarrow> int \<Rightarrow> bool" where
  "regular_day z t =
     (\<forall>hms. 0 \<le> hms \<and> hms < 86400 \<longrightarrow>
        localize z (local_midnight z t + hms) = local_midnight z t + hms - utc_offset z t)"

section \<open>Example inputs\<close>

text \<open>
  Europe/London in 2023: one hour ahead of UTC from 2023-03-26T01:00:00Z until
  2023-10-29T01:00:00Z. Wall-clock readings inside the hour skipped in March and the hour
  repeated in October are read as standard time.
\<close>

definition europe_london :: zone where
  "europe_london =
     \<lparr>utc_offset = (\<lambda>t. if 1679792400 \<le> t \<and> t < 1698541200 then 3600 else 0),
      localize = (\<lambda>w. if 1679796000 \<le> w \<and> w < 1698541200 then w - 3600 else w)\<rparr>"

text \<open>What \<open>maya.parse\<close> and \<open>iso8601\<close> give on the timestamps of the examples.\<close>

definition example_lib :: maya_lib where
  "example_lib =
     \<lparr>parse = map_of
        [(''2023-06-01T00:15:00+01:00'', 1685574900),
         (''2023-06-01T00:30:00+01:00'', 1685575800),
         (''2023-06-01T00:45:00+01:00'', 1685576700),
         (''2023-06-01T02:00:00+01:00'', 1685581200),
         (''2023-06-01T02:30:00+01:00'', 1685583000),
         (''2023-06-01T04:30:00+01:00'', 1685590200),
         (''2023-06-01T05:00:00+01:00'', 1685592000),
         (''2023-06-01T05:30:00+01:00'', 1685593800),
         (''2023-06-01T06:00:00+01:00'', 1685595600)],
      iso8601 = (\<lambda>t. case map_of
        [(1685574900, ''2023-05-31T23:15:00Z''),
         (1685575800, ''2023-05-31T23:30:00Z''),
         (1685576700, ''2023-05-31T23:45:00Z''),
         (1685581200, ''2023-06-01T01:00:00Z''),
         (1685583000, ''2023-06-01T01:30:00Z''),
         (1685590200, ''2023-06-01T03:30:00Z''),
         (1685592000, ''2023-06-01T04:00:00Z''),
         (1685593800, ''2023-06-01T04:30:00Z''),
         (1685595600, ''2023-06-01T05:00:00Z'')] t of None \<Rightarrow> [] | Some s \<Rightarrow> s)\<rparr>"

text \<open>A day/night tariff whose low band is 00:30 to 04:30, and one whose low band is
  23:30 to 05:30, across midnight.\<close>

definition night_tariff :: "int rate_data" where
  "night_tariff =
     \<lparr>unit_rate = None, unit_rate_high = Some 30, unit_rate_low = Some 10,
      unit_rate_low_start = Some 1800, unit_rate_low_end = Some 16200,
      unit_rate_low_zone = Some (Some europe_london),
      conversion_factor = None, agile_unit_rates = Some []\<rparr>"

definition midnight_tariff :: "int rate_data" where
  "midnight_tariff =
     \<lparr>unit_rate = None, unit_rate_high = Some 30, unit_rate_low = Some 10,
      unit_rate_low_start = Some 84600, unit_rate_low_end = Some 19800,
      unit_rate_low_zone = Some (Some europe_london),
      conversion_factor = None, agile_unit_rates = Some []\<rparr>"

definition gas_tariff :: "int rate_data" where
  "gas_tariff =
     \<lparr>unit_rate = Some 7, unit_rate_high = None, unit_rate_low = None,
      unit_rate_low_start = None, unit_rate_low_end = None,
      unit_rate_low_zone = None,
      conversion_factor = Some (Some 11), agile_unit_rates = None\<rparr>"

text \<open>The night tariff with a price series of one entry, valid until 02:00 local time;
  the same with a conversion factor; a configuration that names a zone and no low band.\<close>

definition gas_tariff_with :: "int option option \<Rightarrow> int rate_data" where
  "gas_tariff_with v = gas_tariff\<lparr>conversion_factor := v\<rparr>"

definition agile_tariff :: "int rate_data" where
  "agile_tariff =
     night_tariff\<lparr>agile_unit_rates :=
       Some [\<lparr>valid_from = ''2023-06-01T00:30:00Z'', valid_to = ''2023-06-01T01:00:00Z'',
              value_inc_vat = 17\<rparr>]\<rparr>"

definition converting_tariff :: "int rate_data" where
  "converting_tariff = agile_tariff\<lparr>conversion_factor := Some (Some 2)\<rparr>"

definition no_band_config :: "int electricity_config" where
  "no_band_config =
     \<lparr>cfg_unit_rate_high = Some 30, cfg_unit_rate_low = None,
      cfg_unit_rate_low_start = None, cfg_unit_rate_low_end = None,
      cfg_unit_rate_low_zone = Some europe_london\<rparr>"

definition forty_nine_rates :: "int price_point list" where
  "forty_nine_rates =
     replicate 49 \<lparr>valid_from = ''2023-06-01T00:30:00Z'', valid_to = ''2023-06-01T01:00:00Z'',
                    value_inc_vat = 17\<rparr>"

definition reading :: "string \<Rightarrow> string \<Rightarrow> int \<Rightarrow> int consumption_record" where
  "reading s e c = \<lparr>interval_start = s, interval_end = e, consumption = c\<rparr>"

text \<open>A source of three pages, of 100, 100 and 7 records, numbered in the order served.\<close>

definition numbered :: "nat list \<Rightarrow> int json list" where
  "numbered ns = map (\<lambda>n. JNum (int n)) ns"

definition three_pages :: "int source" where
  "three_pages rq =
     (if page rq = None then
        Inr (JObj [(''results'', JList (numbered [0..<100])),
                   (''next'', JStr ''https://api/c/?page=2'')])
      else if page rq = Some ''2'' then
        Inr (JObj [(''results'', JList (numbered [100..<200])),
                   (''next'', JStr ''https://api/c/?page=3'')])
      else if page rq = Some ''3'' then
        Inr (JObj [(''results'', JList (numbered [200..<207])), (''next'', JNull)])
      else Inl HTTPError)"

text \<open>The same source with its third page failing (a non-success status).\<close>

definition third_page_fails :: "int source" where
  "third_page_fails rq = (if page rq = Some ''3'' then Inl HTTPError else three_pages rq)"

text \<open>
  A source whose second and last page is malformed, its \<open>results\<close> being a string; a
  source whose only page has \<open>null\<close> for its \<open>results\<close>.
\<close>

definition second_page_malformed :: "int source" where
  "second_page_malformed rq =
     (if page rq = None then
        Inr (JObj [(''results'', JList [JNum 1, JNum 2]),
                   (''next'', JStr ''https://api/c/?page=2'')])
      else
        Inr (JObj [(''results'', JStr ''down''), (''next'', JNull)]))"

definition null_results :: "int source" where
  "null_results rq = Inr (JObj [(''results'', JNull), (''next'', JNull)])"

definition example_query_page :: "string \<Rightarrow> string option" where
  "example_query_page u =
     map_of [(''https://api/c/?page=2'', ''2''), (''https://api/c/?page=3'', ''3'')] u"

section \<open>Paginator: theorems\<close>


lemma retrieve_last_page:
  "src (request_args k u f t pg) = Inr data \<Longrightarrow> next_token qp data = Some None \<Longrightarrow>
   page_results data = Some rs \<Longrightarrow>
   retrieve_paginated_data (Suc d) qp src k u f t pg = Inr (JList rs)"
  by (auto simp: next_token_def page_results_def json_truthy_def split: json.splits option.splits if_splits)


lemma retrieve_next_page_list:
  "src (request_args k u f t pg) = Inr data \<Longrightarrow> next_token qp data = Some (Some p) \<Longrightarrow>
   page_results data = Some rs \<Longrightarrow>
   retrieve_paginated_data d qp src k u f t (Some p) = Inr (JList more_rs) \<Longrightarrow>
   retrieve_paginated_data (Suc d) qp src k u f t pg = Inr (JList (rs @ more_rs))"
  by (auto simp: next_token_def page_results_def iadd_def iter_items_def json_truthy_def
           split: json.splits option.splits if_splits)

lemma retrieve_serves:
  "serves_pages qp src k u f t pg pss \<Longrightarrow> length pss \<le> depth \<Longrightarrow>
   retrieve_paginated_data depth qp src k u f t pg = Inr (JList (concat pss))"
proof (induction pss arbitrary: depth pg)
  case Nil
  then show ?case by simp
next
  case (Cons rs rest)
  then obtain d where d: "depth = Suc d" and len: "length rest \<le> d"
    by (cases depth) auto
  from Cons.prems(1) obtain data where
    src: "src (request_args k u f t pg) = Inr data" and
    rs: "page_results data = Some rs"
    by (auto split: sum.splits)
  show ?case
  proof (cases "next_token qp data")
    case None
    with Cons.prems(1) src show ?thesis by simp
  next
    case (Some tok)
    show ?thesis
    proof (cases tok)
      case None
      with Cons.prems(1) src Some have "rest = []" by simp
      with Some None have tok: "next_token qp data = Some None" by simp
      have r: "retrieve_paginated_data (Suc d) qp src k u f t pg = Inr (JList rs)"
        by (rule retrieve_last_page[where src=src and k=k and u=u and f=f and t=t and pg=pg and data=data and rs=rs, OF src tok rs])
      from \<open>rest = []\<close> have c: "concat (rs # rest) = rs" by simp
      show ?thesis unfolding d r c by (rule refl)
    next
      case (Some p)
      with Cons.prems(1) src \<open>next_token qp data = Some tok\<close>
      have rest: "serves_pages qp src k u f t (Some p) rest" by simp
      from Cons.IH[OF rest len]
      have ih: "retrieve_paginated_data d qp src k u f t (Some p) = Inr (JList (concat rest))" .
      from Some \<open>next_token qp data = Some tok\<close>
      have tok: "next_token qp data = Some (Some p)" by simp
      have r: "retrieve_paginated_data (Suc d) qp src k u f t pg
                 = Inr (JList (rs @ concat rest))"
        by (rule retrieve_next_page_list[where src=src and k=k and u=u and f=f and t=t and pg=pg and data=data, OF src tok rs ih])
      have c: "concat (rs # rest) = rs @ concat rest" by simp
      show ?thesis unfolding d r c by (rule refl)
    qed
  qed
qed



lemmas source_defs = three_pages_def third_page_fails_def second_page_malformed_def
  null_results_def example_query_page_def request_args_def truthy_def json_truthy_def
  page_results_def next_token_def page_error_def

lemma three_pages_serves:
  "serves_pages example_query_page three_pages ''key'' ''https://api/c/'' ''a'' ''b'' None
     [numbered [0..<100], numbered [100..<200], numbered [200..<207]]"
  by (simp add: source_defs)


text \<open>
  C5. When the source serves the well-formed pages \<open>pss\<close> from the requested page on,
  each but the last with a continuation token and the last with none, and the recursion
  has a frame for every page, \<open>retrieve_paginated_data\<close> returns the concatenation of the
  pages' results in the order served. A single page without a token is the case
  \<open>pss = [rs]\<close>; the witness is the source with pages of 100, 100 and 7 records, which
  gives the 207 records in order.
\<close>

theorem fetch_all_concatenates_pages:
  "serves_pages qp src k u f t pg pss \<Longrightarrow> length pss \<le> depth \<Longrightarrow>
   retrieve_paginated_data depth qp src k u f t pg = Inr (JList (concat pss))"
  by (rule retrieve_serves)

theorem fetch_all_concatenates_pages_witness:
  "serves_pages example_query_page three_pages ''key'' ''https://api/c/'' ''a'' ''b'' None
     [numbered [0..<100], numbered [100..<200], numbered [200..<207]] \<and>
   length [numbered [0..<100], numbered [100..<200], numbered [200..<207]] \<le> 3 \<and>
   retrieve_paginated_data 3 example_query_page three_pages ''key'' ''https://api/c/''
     ''a'' ''b'' None = Inr (JList (numbered [0..<207])) \<and>
   length (numbered [0..<207]) = 207"
proof -
  have c: "concat [numbered [0..<100], numbered [100..<200], numbered [200..<207]]
           = numbered [0..<207]"
    unfolding numbered_def
    by (simp add: upt_add_eq_append[of 0 100 100, simplified]
          upt_add_eq_append[of 0 200 7, simplified])
  have l: "length (numbered [0..<207]) = 207" by (simp add: numbered_def)
  show ?thesis
    using fetch_all_concatenates_pages[OF three_pages_serves, of 3] three_pages_serves c l
    by simp
qed




section \<open>Rate band resolver: theorems\<close>

lemma instant_split:
  "t = local_midnight z t + time_of_day z t - utc_offset z t"
  by (simp add: local_midnight_def time_of_day_def local_seconds_def)

lemma time_of_day_range: "0 \<le> time_of_day z t \<and> time_of_day z t < 86400"
  by (simp add: time_of_day_def)

lemma when_regular:
  "regular_day z t \<Longrightarrow> 0 \<le> hms \<Longrightarrow> hms < 86400 \<Longrightarrow>
   when_on_local_date z t hms = local_midnight z t + hms - utc_offset z t"
  by (simp add: regular_day_def when_on_local_date_def)

text \<open>
  What \<open>active_rate_field\<close> returns for a banded schedule on a regular day, in both
  shapes of the band. Across midnight the first interval ends at 23:59:59 and excludes
  it, so the last second of the local day is outside the band.
\<close>

lemma active_rate_field_regular:
  assumes gas: "series \<noteq> ''gas''"
    and zone: "unit_rate_low_zone rd = Some (Some z)"
    and ls: "unit_rate_low_start rd = Some ls" "0 \<le> ls" "ls < 86400"
    and le: "unit_rate_low_end rd = Some le" "0 \<le> le" "le < 86400"
    and t: "parse lib (interval_start m) = Some t"
    and reg: "regular_day z t"
  shows "active_rate_field lib series rd m =
     Inr (if (if le < ls
              then (ls \<le> time_of_day z t \<and> time_of_day z t < 86399) \<or> time_of_day z t < le
              else ls \<le> time_of_day z t \<and> time_of_day z t < le)
          then ''unit_rate_low'' else ''unit_rate_high'')"
proof -
  define M where "M = local_midnight z t"
  define off where "off = utc_offset z t"
  define tod where "tod = time_of_day z t"
  have w: "when_on_local_date z t ls = M + ls - off"
    "when_on_local_date z t le = M + le - off"
    "when_on_local_date z t 86399 = M + 86399 - off"
    "when_on_local_date z t 0 = M + 0 - off"
    using ls le reg by (simp_all add: when_regular M_def off_def)
  have tt: "t = M + tod - off" unfolding M_def tod_def off_def by (rule instant_split)
  have r: "0 \<le> tod" "tod < 86400" using time_of_day_range[of z t] by (simp_all add: tod_def)
  show ?thesis
    unfolding active_rate_field_def tod_def[symmetric]
    using gas zone ls le t r
    apply (simp add: w Let_def MayaInterval_def contains_dt_def)
    apply (simp add: tt)
    apply auto
    done
qed

text \<open>Across midnight, the last second of a regular local day resolves to the high rate.\<close>

lemma midnight_band_last_second_high:
  assumes "series \<noteq> ''gas''"
    and "unit_rate_low_zone rd = Some (Some z)"
    and "unit_rate_low_start rd = Some ls" and "unit_rate_low_end rd = Some le"
    and "0 \<le> le" and "le < ls" and "ls < 86400"
    and "parse lib (interval_start m) = Some t"
    and "regular_day z t"
    and "time_of_day z t = 86399"
  shows "active_rate_field lib series rd m = Inr ''unit_rate_high''"
  using active_rate_field_regular[of series rd z ls le lib m t] assms by simp

lemmas eval_defs = active_rate_field_def night_tariff_def midnight_tariff_def europe_london_def
  example_lib_def reading_def when_on_local_date_def local_midnight_def local_seconds_def
  time_of_day_def MayaInterval_def contains_dt_def Let_def

text \<open>Every instant of the local day 2023-06-01 in London lies on a regular day.\<close>

lemma june_first_regular:
  "1685574000 \<le> t \<Longrightarrow> t < 1685660400 \<Longrightarrow> regular_day europe_london t"
proof -
  assume a: "1685574000 \<le> t" "t < 1685660400"
  have d: "(t + 3600) div 86400 = 19509" using a by simp
  show ?thesis
    using a by (simp add: regular_day_def local_midnight_def local_seconds_def europe_london_def d)
qed

text \<open>
  C1, as the code has it. For a banded schedule whose low band crosses midnight
  (\<open>low_start > low_end\<close>), on a regular day and for an instant before the last second of
  its local day, \<open>active_rate_field\<close> returns \<open>unit_rate_low\<close> exactly when the local time
  of day is at or after \<open>low_start\<close>, or before \<open>low_end\<close>; the end of the band is
  excluded, as the library's intervals exclude their end. Otherwise it returns
  \<open>unit_rate_high\<close>.
\<close>

theorem midnight_band_half_open:
  assumes "series \<noteq> ''gas''"
    and "unit_rate_low_zone rd = Some (Some z)"
    and "unit_rate_low_start rd = Some ls" and "unit_rate_low_end rd = Some le"
    and "0 \<le> le" and "le < ls" and "ls < 86400"
    and "parse lib (interval_start m) = Some t"
    and "regular_day z t"
    and "time_of_day z t < 86399"
  shows "active_rate_field lib series rd m =
     Inr (if ls \<le> time_of_day z t \<or> time_of_day z t < le
          then ''unit_rate_low'' else ''unit_rate_high'')"
  using active_rate_field_regular[of series rd z ls le lib m t] assms by simp

text \<open>Witness: the band 23:30 to 05:30 in London, at 00:15 local time.\<close>

theorem midnight_band_half_open_witness:
  "time_of_day europe_london 1685574900 = 900 \<and>
   active_rate_field example_lib ''electricity'' midnight_tariff
     (reading ''2023-06-01T00:15:00+01:00'' ''2023-06-01T00:45:00+01:00'' 1)
     = Inr ''unit_rate_low''"
proof -
  have reg: "regular_day europe_london 1685574900" by (rule june_first_regular) simp_all
  have tod: "time_of_day europe_london 1685574900 = 900"
    by (simp add: time_of_day_def local_seconds_def europe_london_def)
  show ?thesis
    using midnight_band_half_open[of "''electricity''" midnight_tariff europe_london 84600 19800
        example_lib "reading ''2023-06-01T00:15:00+01:00'' ''2023-06-01T00:45:00+01:00'' 1"
        1685574900, OF _ _ _ _ _ _ _ _ reg]
    by (simp add: tod midnight_tariff_def example_lib_def reading_def)
qed

text \<open>
  C1 as stated fails: with the band 23:30 to 05:30, at 05:30:00 local time the time of day
  is \<open>\<le> low_end\<close> and the code returns \<open>unit_rate_high\<close>.
\<close>

theorem closed_midnight_band_counterexample:
  "time_of_day europe_london 1685593800 = 19800 \<and>
   active_rate_field example_lib ''electricity'' midnight_tariff
     (reading ''2023-06-01T05:30:00+01:00'' ''2023-06-01T06:00:00+01:00'' 1)
     = Inr ''unit_rate_high'' \<and>
   \<not> (active_rate_field example_lib ''electricity'' midnight_tariff
        (reading ''2023-06-01T05:30:00+01:00'' ''2023-06-01T06:00:00+01:00'' 1)
        = Inr ''unit_rate_low''
      \<longleftrightarrow> 84600 \<le> time_of_day europe_london 1685593800
          \<or> time_of_day europe_london 1685593800 \<le> 19800)"
  by (simp add: eval_defs)

text \<open>
  C2, as the code has it. For a banded schedule with \<open>low_start \<le> low_end\<close>, on a regular
  day, \<open>active_rate_field\<close> returns \<open>unit_rate_low\<close> exactly when the local time of day
  lies in the half-open interval from \<open>low_start\<close> (included) to \<open>low_end\<close> (excluded),
  and \<open>unit_rate_high\<close> otherwise.
\<close>

theorem single_band_half_open:
  assumes "series \<noteq> ''gas''"
    and "unit_rate_low_zone rd = Some (Some z)"
    and "unit_rate_low_start rd = Some ls" and "unit_rate_low_end rd = Some le"
    and "0 \<le> ls" and "ls \<le> le" and "le < 86400"
    and "parse lib (interval_start m) = Some t"
    and "regular_day z t"
  shows "active_rate_field lib series rd m =
     Inr (if ls \<le> time_of_day z t \<and> time_of_day z t < le
          then ''unit_rate_low'' else ''unit_rate_high'')"
  using active_rate_field_regular[of series rd z ls le lib m t] assms by simp

text \<open>Witness: the band 00:30 to 04:30 in London, at 02:00 local time.\<close>

theorem single_band_half_open_witness:
  "time_of_day europe_london 1685581200 = 7200 \<and>
   active_rate_field example_lib ''electricity'' night_tariff
     (reading ''2023-06-01T02:00:00+01:00'' ''2023-06-01T02:30:00+01:00'' 1)
     = Inr ''unit_rate_low''"
proof -
  have reg: "regular_day europe_london 1685581200" by (rule june_first_regular) simp_all
  have tod: "time_of_day europe_london 1685581200 = 7200"
    by (simp add: time_of_day_def local_seconds_def europe_london_def)
  show ?thesis
    using single_band_half_open[of "''electricity''" night_tariff europe_london 1800 16200
        example_lib "reading ''2023-06-01T02:00:00+01:00'' ''2023-06-01T02:30:00+01:00'' 1"
        1685581200, OF _ _ _ _ _ _ _ _ reg]
    by (simp add: tod night_tariff_def example_lib_def reading_def)
qed

text \<open>
  C2 as stated fails at the upper endpoint: with the band 00:30 to 04:30, at 04:30:00
  local time the time of day lies in the closed interval and the code returns
  \<open>unit_rate_high\<close>.
\<close>

theorem closed_single_band_counterexample:
  "time_of_day europe_london 1685590200 = 16200 \<and>
   active_rate_field example_lib ''electricity'' night_tariff
     (reading ''2023-06-01T04:30:00+01:00'' ''2023-06-01T05:00:00+01:00'' 1)
     = Inr ''unit_rate_high'' \<and>
   \<not> (active_rate_field example_lib ''electricity'' night_tariff
        (reading ''2023-06-01T04:30:00+01:00'' ''2023-06-01T05:00:00+01:00'' 1)
        = Inr ''unit_rate_low''
      \<longleftrightarrow> 1800 \<le> time_of_day europe_london 1685590200
          \<and> time_of_day europe_london 1685590200 \<le> 16200)"
  by (simp add: eval_defs)

text \<open>\<open>cmd\<close> turns a configuration without a low band into the degenerate band 00:00 to 00:00.\<close>

lemma cmd_missing_band_is_degenerate:
  "cfg_unit_rate_low_start cfg = None \<Longrightarrow> cfg_unit_rate_low_end cfg = None \<Longrightarrow>
   unit_rate_low_start (electricity_rate_data cfg agile) = Some 0 \<and>
   unit_rate_low_end (electricity_rate_data cfg agile) = Some 0"
  by (simp add: electricity_rate_data_def fallback_def)

text \<open>
  C3. A schedule without a low band resolves to \<open>unit_rate_high\<close> at every instant and
  raises nothing: either the schedule has no zone (\<open>None\<close> or empty), or its low band is
  degenerate, start and end being the same time of day (which is what \<open>cmd\<close> makes of a
  configuration that names neither). No condition on the zone is needed.
\<close>

theorem no_low_band_is_high:
  assumes "series \<noteq> ''gas''"
    and "unit_rate_low_zone rd = Some None \<or>
         (\<exists>z s. unit_rate_low_zone rd = Some (Some z) \<and> unit_rate_low_start rd = Some s \<and>
                 unit_rate_low_end rd = Some s \<and> parse lib (interval_start m) \<noteq> None)"
  shows "active_rate_field lib series rd m = Inr ''unit_rate_high''"
  using assms
  by (auto simp: active_rate_field_def Let_def MayaInterval_def contains_dt_def)

text \<open>Witness: the rate data \<open>cmd\<close> builds from a configuration with a zone and no band.\<close>

theorem no_low_band_is_high_witness:
  "unit_rate_low_zone (electricity_rate_data no_band_config []) = Some (Some europe_london) \<and>
   unit_rate_low_start (electricity_rate_data no_band_config []) = Some 0 \<and>
   unit_rate_low_end (electricity_rate_data no_band_config []) = Some 0 \<and>
   active_rate_field example_lib ''electricity'' (electricity_rate_data no_band_config [])
     (reading ''2023-06-01T00:15:00+01:00'' ''2023-06-01T00:45:00+01:00'' 1)
     = Inr ''unit_rate_high''"
  using no_low_band_is_high[of "''electricity''" "electricity_rate_data no_band_config []"
       example_lib "reading ''2023-06-01T00:15:00+01:00'' ''2023-06-01T00:45:00+01:00'' 1"]
  by (simp add: electricity_rate_data_def no_band_config_def fallback_def example_lib_def
        reading_def)

section \<open>Measurement enricher: theorems\<close>

lemma agile_rates_None:
  "agile_rates ps k = None \<longleftrightarrow> k \<notin> valid_to ` set ps"
  by (simp add: agile_rates_def map_of_eq_None_iff image_image)

lemma agile_tariff_low:
  "active_rate_field example_lib ''electricity'' agile_tariff
     (reading ''2023-06-01T02:00:00+01:00'' ''2023-06-01T02:30:00+01:00'' 5)
     = Inr ''unit_rate_low''"
  by (simp add: eval_defs agile_tariff_def)

lemma night_tariff_0015_high:
  "active_rate_field example_lib ''electricity'' night_tariff
     (reading ''2023-06-01T00:15:00+01:00'' ''2023-06-01T00:45:00+01:00'' 1)
     = Inr ''unit_rate_high''"
  by (simp add: eval_defs)

lemma strftime_utc: "strftime_HM 1685576700 = ''23:45''"
  by (simp add: strftime_HM_def two_digits_def)

lemmas field_defs = fields_for_measurement_def agile_data_of_def agile_rates_def rate_lookup_def
  agile_tariff_def converting_tariff_def gas_tariff_with_def gas_tariff_def

lemma converting_tariff_high:
  "active_rate_field example_lib ''electricity'' converting_tariff
     (reading ''2023-06-01T05:00:00+01:00'' ''2023-06-01T05:30:00+01:00'' 5)
     = Inr ''unit_rate_high''"
  by (simp add: eval_defs agile_tariff_def converting_tariff_def)

lemma gas_fields:
  "fields_for_measurement example_lib ''gas'' (gas_tariff_with v)
     (reading ''2023-06-01T00:15:00+01:00'' ''2023-06-01T00:45:00+01:00'' 3) =
   Inr [(''consumption'',
         (case v of None \<Rightarrow> 3 | Some None \<Rightarrow> 3 | Some (Some f) \<Rightarrow> if f = 0 then 3 else 3 * f))]"
  by (simp add: field_defs active_rate_field_def reading_def Let_def split: option.splits)

lemma converting_fields:
  "fields_for_measurement example_lib ''electricity'' converting_tariff
     (reading ''2023-06-01T02:00:00+01:00'' ''2023-06-01T02:30:00+01:00'' 5)
     = Inr [(''consumption'', 10), (''agile_rate'', 10), (''agile_cost'', 100)]"
  by (simp add: field_defs eval_defs)

text \<open>
  C4, as the code has it. With a price series that is supplied and not empty, and no entry
  whose \<open>valid_to\<close> is the ISO form of the record's \<open>interval_end\<close>, the fields are the
  converted consumption, an \<open>agile_rate\<close> equal to the schedule's static rate for the
  band resolved for the record (\<open>unit_rate_low\<close> in the low band, \<open>unit_rate_high\<close> in
  the high band, \<open>unit_rate\<close> for gas), and an \<open>agile_cost\<close> equal to that rate times
  the converted consumption.
\<close>

theorem agile_fallback_static_rate:
  assumes "agile_unit_rates rd = Some ps" and "ps \<noteq> []"
    and "parse lib (interval_end m) = Some end_at"
    and "iso8601 lib end_at \<notin> valid_to ` set ps"
    and "active_rate_field lib series rd m = Inr band"
    and "(band = ''unit_rate'' \<and> unit_rate rd = Some r) \<or>
         (band = ''unit_rate_high'' \<and> unit_rate_high rd = Some r) \<or>
         (band = ''unit_rate_low'' \<and> unit_rate_low rd = Some r)"
  shows "fields_for_measurement lib series rd m =
           Inr [(''consumption'',
                   (case conversion_factor rd of
                      None \<Rightarrow> consumption m
                    | Some None \<Rightarrow> consumption m
                    | Some (Some factor) \<Rightarrow>
                        if factor = 0 then consumption m else consumption m * factor)),
                (''agile_rate'', r),
                (''agile_cost'',
                   r * (case conversion_factor rd of
                          None \<Rightarrow> consumption m
                        | Some None \<Rightarrow> consumption m
                        | Some (Some factor) \<Rightarrow>
                            if factor = 0 then consumption m else consumption m * factor))]"
proof -
  from assms(1,4) have none: "agile_rates (agile_data_of rd) (iso8601 lib end_at) = None"
    by (simp add: agile_rates_None agile_data_of_def)
  from assms(1,2) have ne: "agile_data_of rd \<noteq> []" by (simp add: agile_data_of_def)
  from assms(6) have lk: "rate_lookup rd band = Inr r"
    by (auto simp: rate_lookup_def)
  show ?thesis
    using assms(3,5) none ne lk
    by (simp add: fields_for_measurement_def Let_def split: option.splits)
qed

text \<open>Witness: a series whose only entry ends at 02:00 local time. A record ending at
  02:30, in the low band, gets the low rate 10; a record ending at 05:30, in the high band
  and with the conversion factor 2, gets the high rate 30 and the cost 30 times 10.\<close>

theorem agile_fallback_static_rate_witness:
  "fields_for_measurement example_lib ''electricity'' agile_tariff
     (reading ''2023-06-01T02:00:00+01:00'' ''2023-06-01T02:30:00+01:00'' 5) =
     Inr [(''consumption'', 5), (''agile_rate'', 10), (''agile_cost'', 50)] \<and>
   fields_for_measurement example_lib ''electricity'' converting_tariff
     (reading ''2023-06-01T05:00:00+01:00'' ''2023-06-01T05:30:00+01:00'' 5) =
     Inr [(''consumption'', 10), (''agile_rate'', 30), (''agile_cost'', 300)]"
proof -
  let ?ps = "[\<lparr>valid_from = ''2023-06-01T00:30:00Z'', valid_to = ''2023-06-01T01:00:00Z'',
               value_inc_vat = 17::int\<rparr>]"
  have a1: "agile_unit_rates agile_tariff = Some ?ps"
    and a2: "agile_unit_rates converting_tariff = Some ?ps"
    by (simp_all add: agile_tariff_def converting_tariff_def night_tariff_def)
  have ne: "?ps \<noteq> []" by simp
  have p1: "parse example_lib
      (interval_end (reading ''2023-06-01T02:00:00+01:00'' ''2023-06-01T02:30:00+01:00'' 5))
      = Some 1685583000"
    and p2: "parse example_lib
      (interval_end (reading ''2023-06-01T05:00:00+01:00'' ''2023-06-01T05:30:00+01:00'' 5))
      = Some 1685593800"
    by (simp_all add: example_lib_def reading_def)
  have k1: "iso8601 example_lib 1685583000 \<notin> valid_to ` set ?ps"
    and k2: "iso8601 example_lib 1685593800 \<notin> valid_to ` set ?ps"
    by (simp_all add: example_lib_def)
  have r1: "(''unit_rate_low'' = ''unit_rate'' \<and> unit_rate agile_tariff = Some 10) \<or>
         (''unit_rate_low'' = ''unit_rate_high'' \<and> unit_rate_high agile_tariff = Some 10) \<or>
         (''unit_rate_low'' = ''unit_rate_low'' \<and> unit_rate_low agile_tariff = Some 10)"
    by (simp add: agile_tariff_def night_tariff_def)
  have r2: "(''unit_rate_high'' = ''unit_rate'' \<and> unit_rate converting_tariff = Some 30) \<or>
         (''unit_rate_high'' = ''unit_rate_high'' \<and> unit_rate_high converting_tariff = Some 30) \<or>
         (''unit_rate_high'' = ''unit_rate_low'' \<and> unit_rate_low converting_tariff = Some 30)"
    by (simp add: agile_tariff_def converting_tariff_def night_tariff_def)
  have c1: "conversion_factor agile_tariff = None"
    and c2: "conversion_factor converting_tariff = Some (Some 2)"
    by (simp_all add: agile_tariff_def converting_tariff_def night_tariff_def)
  have m: "consumption (reading ''2023-06-01T02:00:00+01:00'' ''2023-06-01T02:30:00+01:00'' 5) = 5"
    "consumption (reading ''2023-06-01T05:00:00+01:00'' ''2023-06-01T05:30:00+01:00'' 5) = 5"
    by (simp_all add: reading_def)
  show ?thesis
    using agile_fallback_static_rate[OF a1 ne p1 k1 agile_tariff_low r1]
      agile_fallback_static_rate[OF a2 ne p2 k2 converting_tariff_high r2]
    by (simp add: c1 c2 m)
qed

text \<open>
  C4 as stated fails for a price series that is supplied and empty: no entry matches, and
  the code attaches neither \<open>agile_rate\<close> nor \<open>agile_cost\<close>.
\<close>

theorem empty_price_series_counterexample:
  "agile_unit_rates night_tariff = Some [] \<and>
   fields_for_measurement example_lib ''electricity'' night_tariff
     (reading ''2023-06-01T02:00:00+01:00'' ''2023-06-01T02:30:00+01:00'' 5) =
     Inr [(''consumption'', 5)] \<and>
   map_of [(''consumption'', 5::int)] ''agile_rate'' = None"
  by (simp add: fields_for_measurement_def agile_data_of_def eval_defs)

text \<open>
  C8, as the code has it. The \<open>time_of_day\<close> tag of a record is the UTC clock time
  \<open>HH:MM\<close> of its \<open>interval_end\<close>: the instant is formatted as it is, and the schedule's
  zone has no part in it.
\<close>

theorem time_of_day_tag_is_utc:
  assumes "parse lib (interval_end m) = Some end_at"
    and "active_rate_field lib series rd m = Inr rate"
  shows "tags_for_measurement lib series rd m =
           Inr [(''active_rate'', rate), (''time_of_day'', strftime_HM end_at)]"
  using assms by (simp add: tags_for_measurement_def Let_def)

text \<open>Witness: a record ending at 00:45 London time, 23:45 UTC.\<close>

theorem time_of_day_tag_is_utc_witness:
  "parse example_lib ''2023-06-01T00:45:00+01:00'' = Some 1685576700 \<and>
   tags_for_measurement example_lib ''electricity'' night_tariff
     (reading ''2023-06-01T00:15:00+01:00'' ''2023-06-01T00:45:00+01:00'' 1) =
     Inr [(''active_rate'', ''unit_rate_high''), (''time_of_day'', ''23:45'')]"
proof -
  have p: "parse example_lib
      (interval_end (reading ''2023-06-01T00:15:00+01:00'' ''2023-06-01T00:45:00+01:00'' 1))
      = Some 1685576700"
    by (simp add: example_lib_def reading_def)
  show ?thesis
    using time_of_day_tag_is_utc[OF p night_tariff_0015_high] p
    by (simp add: strftime_utc reading_def)
qed

text \<open>
  C8 as stated fails: for a schedule in the zone Europe/London and a record ending at
  2023-06-01T00:45:00+01:00, the local clock time is 00:45 and the tag is 23:45.
\<close>

theorem local_time_of_day_tag_counterexample:
  "parse example_lib ''2023-06-01T00:45:00+01:00'' = Some 1685576700 \<and>
   strftime_HM (local_seconds europe_london 1685576700) = ''00:45'' \<and>
   map_of (projr (tags_for_measurement example_lib ''electricity'' night_tariff
     (reading ''2023-06-01T00:15:00+01:00'' ''2023-06-01T00:45:00+01:00'' 1))) ''time_of_day''
     = Some ''23:45''"
  by (simp add: tags_for_measurement_def eval_defs strftime_HM_def two_digits_def)

text \<open>
  C10. When \<open>conversion_factor\<close> is missing, \<open>None\<close> or zero, the \<open>consumption\<close> field
  is the raw consumption, and a zero factor does not zero it; a factor that is not zero
  multiplies it. In both cases an attached \<open>agile_cost\<close> is \<open>agile_rate\<close> times the
  consumption so converted.
\<close>

theorem conversion_factor_applied:
  assumes "fields_for_measurement lib series rd m = Inr fs"
  shows "(conversion_factor rd = None \<or> conversion_factor rd = Some None \<or>
          conversion_factor rd = Some (Some 0) \<longrightarrow>
            map_of fs ''consumption'' = Some (consumption m) \<and>
            (\<forall>r. map_of fs ''agile_rate'' = Some r \<longrightarrow>
                 map_of fs ''agile_cost'' = Some (r * consumption m))) \<and>
         (\<forall>factor. conversion_factor rd = Some (Some factor) \<and> factor \<noteq> 0 \<longrightarrow>
            map_of fs ''consumption'' = Some (consumption m * factor) \<and>
            (\<forall>r. map_of fs ''agile_rate'' = Some r \<longrightarrow>
                 map_of fs ''agile_cost'' = Some (r * (consumption m * factor))))"
  using assms
  by (auto simp: fields_for_measurement_def Let_def split: sum.splits if_splits option.splits)

text \<open>Witness: a gas reading of 3 with the factor missing, \<open>None\<close>, 0 and 11 gives 3, 3, 3
  and 33; an electricity reading of 5 with the factor 2 and the fallback rate 10 gives the
  consumption 10 and the cost 100.\<close>

theorem conversion_factor_applied_witness:
  "fields_for_measurement example_lib ''gas'' (gas_tariff_with None)
     (reading ''2023-06-01T00:15:00+01:00'' ''2023-06-01T00:45:00+01:00'' 3)
     = Inr [(''consumption'', 3)] \<and>
   fields_for_measurement example_lib ''gas'' (gas_tariff_with (Some None))
     (reading ''2023-06-01T00:15:00+01:00'' ''2023-06-01T00:45:00+01:00'' 3)
     = Inr [(''consumption'', 3)] \<and>
   fields_for_measurement example_lib ''gas'' (gas_tariff_with (Some (Some 0)))
     (reading ''2023-06-01T00:15:00+01:00'' ''2023-06-01T00:45:00+01:00'' 3)
     = Inr [(''consumption'', 3)] \<and>
   fields_for_measurement example_lib ''gas'' (gas_tariff_with (Some (Some 11)))
     (reading ''2023-06-01T00:15:00+01:00'' ''2023-06-01T00:45:00+01:00'' 3)
     = Inr [(''consumption'', 33)] \<and>
   fields_for_measurement example_lib ''electricity'' converting_tariff
     (reading ''2023-06-01T02:00:00+01:00'' ''2023-06-01T02:30:00+01:00'' 5)
     = Inr [(''consumption'', 10), (''agile_rate'', 10), (''agile_cost'', 100)] \<and>
   map_of [(''consumption'', 3::int)] ''consumption''
     = Some (consumption (reading ''2023-06-01T00:15:00+01:00'' ''2023-06-01T00:45:00+01:00'' 3)) \<and>
   map_of [(''consumption'', 33::int)] ''consumption''
     = Some (consumption (reading ''2023-06-01T00:15:00+01:00'' ''2023-06-01T00:45:00+01:00'' 3) * 11) \<and>
   map_of [(''consumption'', 10), (''agile_rate'', 10), (''agile_cost'', 100::int)] ''agile_cost''
     = Some (10 * (consumption
          (reading ''2023-06-01T02:00:00+01:00'' ''2023-06-01T02:30:00+01:00'' 5) * 2))"
proof -
  let ?m = "reading ''2023-06-01T00:15:00+01:00'' ''2023-06-01T00:45:00+01:00'' 3"
  have f_missing: "fields_for_measurement example_lib ''gas'' (gas_tariff_with None) ?m
      = Inr [(''consumption'', 3)]"
    and f_none: "fields_for_measurement example_lib ''gas'' (gas_tariff_with (Some None)) ?m
      = Inr [(''consumption'', 3)]"
    and f_zero: "fields_for_measurement example_lib ''gas'' (gas_tariff_with (Some (Some 0))) ?m
      = Inr [(''consumption'', 3)]"
    and f_eleven: "fields_for_measurement example_lib ''gas'' (gas_tariff_with (Some (Some 11))) ?m
      = Inr [(''consumption'', 33)]"
    by (simp_all add: gas_fields)
  have c: "conversion_factor (gas_tariff_with (Some (Some 0))) = Some (Some 0)"
    "conversion_factor (gas_tariff_with (Some (Some 11))) = Some (Some 11)"
    "conversion_factor (gas_tariff_with None) = None"
    "conversion_factor (gas_tariff_with (Some None)) = Some None"
    "conversion_factor converting_tariff = Some (Some 2)"
    by (simp_all add: gas_tariff_with_def converting_tariff_def)
  show ?thesis
    using conversion_factor_applied[OF f_missing] conversion_factor_applied[OF f_none]
      conversion_factor_applied[OF f_zero] conversion_factor_applied[OF f_eleven]
      conversion_factor_applied[OF converting_fields]
    by (simp add: c f_missing f_none f_zero f_eleven converting_fields)
qed


section \<open>Series emitter: theorems\<close>

lemma loop_below_ceiling:
  "length pts + length xs \<le> 48 \<Longrightarrow>
   store_agilerates_loop c pts xs = (c, pts @ map agile_point xs)"
  by (induction xs arbitrary: pts) (simp_all add: Let_def)

lemma loop_flush_at_49:
  "length pts + length xs = 49 \<Longrightarrow> xs \<noteq> [] \<Longrightarrow>
   store_agilerates_loop c pts xs =
     (c @ [\<lparr>bucket = ''energy'', points = pts @ map agile_point xs\<rparr>], [])"
proof (induction xs arbitrary: pts)
  case Nil
  then show ?case by simp
next
  case (Cons x xs)
  show ?case
  proof (cases "xs = []")
    case True
    with Cons.prems show ?thesis by (simp add: Let_def)
  next
    case False
    with Cons.prems have "length (pts @ [agile_point x]) + length xs = 49"
      and "\<not> length (pts @ [agile_point x]) > 48"
      by (cases xs; simp)+
    with Cons.IH[of "pts @ [agile_point x]"] False show ?thesis by (simp add: Let_def)
  qed
qed

text \<open>Up to 48 rates are written in one call, at the end; 49 rates are written in one
  call of 49 points inside the loop, followed by a call with no points.\<close>

lemma store_agilerates_up_to_48:
  "length agile_data \<le> 48 \<Longrightarrow>
   store_agilerates c agile_data =
     c @ [\<lparr>bucket = ''energy'', points = map agile_point agile_data\<rparr>]"
  using loop_below_ceiling[of "[]" agile_data c] by (simp add: store_agilerates_def)

lemma store_agilerates_49:
  "length agile_data = 49 \<Longrightarrow>
   store_agilerates c agile_data =
     c @ [\<lparr>bucket = ''energy'', points = map agile_point agile_data\<rparr>,
          \<lparr>bucket = ''energy'', points = []\<rparr>]"
  using loop_flush_at_49[of "[]" agile_data c]
  by (cases agile_data) (simp_all add: store_agilerates_def)

text \<open>
  C7, the code at 49 rates: \<open>store_agilerates\<close> makes two write calls, the first of 49
  points and the second of none, where the claim has 48 and 1: the loop flushes when the
  list is longer than 48, not when it reaches 48.
\<close>

theorem forty_nine_rates_written:
  "length forty_nine_rates = 49 \<and>
   map (\<lambda>w. length (points w)) (store_agilerates [] forty_nine_rates) = [49, 0] \<and>
   map (\<lambda>w. length (points w)) (store_agilerates [] forty_nine_rates) \<noteq> [48, 1]"
proof -
  have l: "length forty_nine_rates = 49" by (simp add: forty_nine_rates_def)
  show ?thesis using store_agilerates_49[OF l, of "[]"] l by simp
qed

text \<open>Whatever the series, every point \<open>store_series\<close> writes is named \<open>electricity\<close> and
  has no tags.\<close>

lemma store_series_points:
  assumes "store_series lib connection series metrics rd = Inr connection'"
  shows "\<exists>ws. connection' = connection @ ws \<and>
           (\<forall>w \<in> set ws. \<forall>p \<in> set (points w).
              point_name p = ''electricity'' \<and> point_tags p = [])"
  using assms
  by (auto simp: store_series_def writes_for_measurement_def split: sum.splits)

lemma gas_measurements:
  "measurements example_lib ''gas'' gas_tariff
     [reading ''2023-06-01T00:15:00+01:00'' ''2023-06-01T00:45:00+01:00'' 3] =
   Inr [\<lparr>measurement = ''gas'',
         tags = [(''active_rate'', ''unit_rate''), (''time_of_day'', ''23:45'')],
         time = ''2023-06-01T00:45:00+01:00'',
         fields_dict = [(''consumption'', 33)]\<rparr>]"
  by (simp add: tags_for_measurement_def fields_for_measurement_def active_rate_field_def
        agile_data_of_def gas_tariff_def Let_def example_lib_def reading_def strftime_utc)

text \<open>
  C9, the code at one gas record: the enriched measurement is built for the series \<open>gas\<close>
  with its two tags, and the point written for it is named \<open>electricity\<close> and has no tags.
\<close>

theorem gas_written_as_electricity:
  "measurements example_lib ''gas'' gas_tariff
     [reading ''2023-06-01T00:15:00+01:00'' ''2023-06-01T00:45:00+01:00'' 3] =
   Inr [\<lparr>measurement = ''gas'',
         tags = [(''active_rate'', ''unit_rate''), (''time_of_day'', ''23:45'')],
         time = ''2023-06-01T00:45:00+01:00'',
         fields_dict = [(''consumption'', 33)]\<rparr>] \<and>
   store_series example_lib [] ''gas''
     [reading ''2023-06-01T00:15:00+01:00'' ''2023-06-01T00:45:00+01:00'' 3] gas_tariff =
   Inr [\<lparr>bucket = ''energy'',
         points = [\<lparr>point_name = ''electricity'', point_tags = [],
                    point_fields = [(''consumption'', 33)],
                    point_time = ''2023-06-01T00:45:00+01:00''\<rparr>]\<rparr>]"
  unfolding store_series_def gas_measurements
  by (simp add: writes_for_measurement_def)

end
